theory Spec2Isabelle
  imports Complex_Main "HOL-Library.Char_ord" "HOL-Library.List_Lexorder"
    "HOL-Library.Product_Lexorder"
begin

section \<open>Data: cells, tables, decoded answers\<close>

text \<open>
  \<^verbatim>\<open>metric_evaluator.py\<close> keeps two pandas DataFrames and hands their cells to
  \<^verbatim>\<open>ast.literal_eval\<close>, \<^verbatim>\<open>jiwer\<close> and \<^verbatim>\<open>sacrebleu\<close>.
  A DataFrame is modelled by its column labels and its rows, in order; the row labels are
  the default ones \<open>0, 1, ..., n - 1\<close> that \<^verbatim>\<open>pd.read_csv\<close> gives. A cell is
  missing (pandas' NaN), a text or a number. Floating-point numbers are idealised as reals.
\<close>

datatype cell = Num real | Text string | NaN

record table =
  columns :: "string list"
  rows :: "cell list list"

text \<open>
  The value of a row under a column label. The labels of a table that \<^verbatim>\<open>pd.read_csv\<close>
  returns are distinct, and every row has one cell per label; where a label occurs twice
  the first occurrence is read, and where there is no cell the value is missing.
\<close>

definition cell_at :: "string list \<Rightarrow> cell list \<Rightarrow> string \<Rightarrow> cell" where
  "cell_at cols r name = (case map_of (zip cols r) name of Some c \<Rightarrow> c | None \<Rightarrow> NaN)"

text \<open>What \<^verbatim>\<open>ast.literal_eval\<close> can return.\<close>

datatype pyval =
    PNone
  | PEllipsis
  | PBool bool
  | PInt int
  | PFloat real
  | PComplex real real
  | PStr string
  | PBytes "nat list"
  | PList "pyval list"
  | PTuple "pyval list"
  | PSet "pyval list"
  | PDict "(pyval \<times> pyval) list"

text \<open>
  The exceptions of the program. \<^verbatim>\<open>validate_data\<close> raises \<^verbatim>\<open>ValueError\<close> with
  two different messages; they are \<open>SchemaMismatchError\<close> and \<open>RowCountMismatchError\<close>.
  \<open>FormatError\<close> carries the exception \<^verbatim>\<open>pd.read_csv\<close> raised, \<open>DecodeError\<close> is
  whatever \<^verbatim>\<open>ast.literal_eval\<close> raised, \<open>MetricError\<close> whatever a metric library
  raised. \<open>KeyError\<close> is a missing column label, \<open>RowKeyError\<close> a missing row label,
  \<open>LengthError\<close> the \<^verbatim>\<open>ValueError\<close> of \<^verbatim>\<open>pd.DataFrame\<close> on columns of unequal
  length, \<open>TypeError\<close> an operand of the wrong type, and \<open>ColumnSubsetError\<close> the
  \<^verbatim>\<open>ValueError\<close> with which pandas 2.0 and later refuse to select the columns of a
  grouping with a tuple of labels.
\<close>

datatype pd_error = ParserError | EmptyDataError | OSError | UnicodeDecodeError

datatype error =
    FormatError pd_error
  | SchemaMismatchError
  | RowCountMismatchError
  | KeyError string
  | RowKeyError nat
  | DecodeError
  | MetricError
  | LengthError
  | TypeError
  | ColumnSubsetError

section \<open>The libraries\<close>

text \<open>
  The libraries are not part of the repository; the evaluator is modelled over any
  behaviour of theirs. \<open>read_csv f s\<close> is \<^verbatim>\<open>pd.read_csv(f, sep=s)\<close>,
  \<open>literal_eval\<close> is \<^verbatim>\<open>ast.literal_eval\<close> on a text (\<open>None\<close> when it raises),
  \<open>wer r h\<close> and \<open>cer r h\<close> are \<^verbatim>\<open>jiwer.wer(reference, hypothesis)\<close> and
  \<^verbatim>\<open>jiwer.cer(reference, hypothesis)\<close>, and \<open>corpus_bleu\<close> is
  \<^verbatim>\<open>sacrebleu.corpus_bleu(hypotheses, references)\<close> with every other parameter at its
  default, followed by \<^verbatim>\<open>.score\<close> (\<open>None\<close> when the library raises).
  \<^verbatim>\<open>Series.value_counts()\<close> sorts the values by their counts with a sort that keeps no
  order among equal counts, so the order of equally frequent values is the
  installation's: \<open>tie_rank cs k\<close> is the place it gives the value \<open>k\<close> of the column
  \<open>cs\<close> among the values of the same count. \<open>pandas\<close> tells which pandas is installed,
  as far as the program depends on it: the repository pins no version.
\<close>

datatype pandas_version = Before_2_0 | From_2_0

datatype sep = Comma | Tab

record bleu_args =
  hypotheses :: pyval
  references :: "pyval list"

record libs =
  read_csv :: "string \<Rightarrow> sep \<Rightarrow> pd_error + table"
  literal_eval :: "string \<Rightarrow> pyval option"
  wer :: "pyval \<Rightarrow> pyval \<Rightarrow> real option"
  cer :: "pyval \<Rightarrow> pyval \<Rightarrow> real option"
  corpus_bleu :: "bleu_args \<Rightarrow> real option"
  tie_rank :: "cell list \<Rightarrow> cell \<Rightarrow> nat"
  pandas :: pandas_version

section \<open>Construction: loading and validation\<close>

record evaluator =
  true_csv :: table
  pred_csv :: table

text \<open>
  \<^verbatim>\<open>read_file\<close>: the comma parse is returned when it raises nothing; only
  \<^verbatim>\<open>pd.errors.ParserError\<close> is caught, and then the tab parse decides.
\<close>

definition read_file :: "libs \<Rightarrow> string \<Rightarrow> error + table" where
  "read_file L file_path =
     (case read_csv L file_path Comma of
        Inr t \<Rightarrow> Inr t
      | Inl ParserError \<Rightarrow>
          (case read_csv L file_path Tab of
             Inr t \<Rightarrow> Inr t
           | Inl e \<Rightarrow> Inl (FormatError e))
      | Inl e \<Rightarrow> Inl (FormatError e))"

definition validate_data :: "evaluator \<Rightarrow> error + unit" where
  "validate_data ev =
     (if columns (true_csv ev) \<noteq> columns (pred_csv ev) then Inl SchemaMismatchError
      else if length (rows (true_csv ev)) \<noteq> length (rows (pred_csv ev))
        then Inl RowCountMismatchError
      else Inr ())"

text \<open>\<^verbatim>\<open>MetricEvaluator.__init__\<close>.\<close>

definition MetricEvaluator_init :: "libs \<Rightarrow> string \<Rightarrow> string \<Rightarrow> error + evaluator" where
  "MetricEvaluator_init L true_file prediction_file =
     (case read_file L true_file of
        Inl e \<Rightarrow> Inl e
      | Inr t \<Rightarrow>
          (case read_file L prediction_file of
             Inl e \<Rightarrow> Inl e
           | Inr p \<Rightarrow>
               (case validate_data \<lparr>true_csv = t, pred_csv = p\<rparr> of
                  Inl e \<Rightarrow> Inl e
                | Inr u \<Rightarrow> Inr \<lparr>true_csv = t, pred_csv = p\<rparr>)))"

section \<open>DataFrame operations\<close>

text \<open>
  \<open>column df name\<close> is \<^verbatim>\<open>df[name]\<close>, \<open>value_at df name row\<close> is
  \<^verbatim>\<open>df[name][row]\<close>, and \<open>drop_column df name\<close> is
  \<^verbatim>\<open>df.drop(columns=name)\<close>, which raises \<^verbatim>\<open>KeyError\<close> when the label is absent.
\<close>

definition column :: "table \<Rightarrow> string \<Rightarrow> error + cell list" where
  "column df name =
     (if name \<in> set (columns df)
      then Inr (map (\<lambda>r. cell_at (columns df) r name) (rows df))
      else Inl (KeyError name))"

definition value_at :: "table \<Rightarrow> string \<Rightarrow> nat \<Rightarrow> error + cell" where
  "value_at df name row =
     (case column df name of
        Inl e \<Rightarrow> Inl e
      | Inr cs \<Rightarrow> if row < length cs then Inr (cs ! row) else Inl (RowKeyError row))"

definition drop_cells :: "string list \<Rightarrow> string \<Rightarrow> cell list \<Rightarrow> cell list" where
  "drop_cells cols name r = map snd (filter (\<lambda>cv. fst cv \<noteq> name) (zip cols r))"

definition drop_column :: "table \<Rightarrow> string \<Rightarrow> error + table" where
  "drop_column df name =
     (if name \<in> set (columns df)
      then Inr \<lparr>columns = filter (\<lambda>c. c \<noteq> name) (columns df),
                rows = map (drop_cells (columns df) name) (rows df)\<rparr>
      else Inl (KeyError name))"

section \<open>Metrics of one pair of answers\<close>

text \<open>
  \<^verbatim>\<open>ast.literal_eval\<close> of a cell: a cell that is not a text is not a literal either,
  and \<^verbatim>\<open>literal_eval\<close> raises \<^verbatim>\<open>ValueError\<close> on it.
\<close>

definition decode :: "libs \<Rightarrow> cell \<Rightarrow> error + pyval" where
  "decode L c =
     (case c of
        Text s \<Rightarrow> (case literal_eval L s of Some v \<Rightarrow> Inr v | None \<Rightarrow> Inl DecodeError)
      | Num x \<Rightarrow> Inl DecodeError
      | NaN \<Rightarrow> Inl DecodeError)"

record metrics =
  wer_error :: real
  cer_error :: real
  bleu_score :: real

text \<open>
  The arguments of \<^verbatim>\<open>sacrebleu.corpus_bleu(Y_true, [y_pred])\<close>: the library's first
  parameter is \<^verbatim>\<open>hypotheses\<close>, its second is \<^verbatim>\<open>references\<close>.
\<close>

definition bleu_call :: "pyval \<Rightarrow> pyval \<Rightarrow> bleu_args" where
  "bleu_call Y_true y_pred = \<lparr>hypotheses = Y_true, references = [y_pred]\<rparr>"

text \<open>
  The three library calls, in the order of the source: \<^verbatim>\<open>wer(Y_true, y_pred)\<close>,
  \<^verbatim>\<open>cer(Y_true, y_pred)\<close>, \<^verbatim>\<open>sacrebleu.corpus_bleu(Y_true, [y_pred]).score\<close>.
  \<^verbatim>\<open>calculate_metrics_general\<close> makes the same three calls on its flattened lists.
\<close>

definition score :: "libs \<Rightarrow> pyval \<Rightarrow> pyval \<Rightarrow> error + metrics" where
  "score L Y_true y_pred =
     (case wer L Y_true y_pred of
        None \<Rightarrow> Inl MetricError
      | Some w \<Rightarrow>
          (case cer L Y_true y_pred of
             None \<Rightarrow> Inl MetricError
           | Some c \<Rightarrow>
               (case corpus_bleu L (bleu_call Y_true y_pred) of
                  None \<Rightarrow> Inl MetricError
                | Some b \<Rightarrow> Inr \<lparr>wer_error = w, cer_error = c, bleu_score = b\<rparr>)))"

section \<open>\<^verbatim>\<open>calculate_metrics_by_id\<close>\<close>

text \<open>
  \<^verbatim>\<open>len(v)\<close>: the number of items of a text, a byte string, a list, a tuple, a set or a
  dictionary; any other value has no length and \<^verbatim>\<open>len\<close> raises \<^verbatim>\<open>TypeError\<close>.
\<close>

fun py_len :: "pyval \<Rightarrow> nat option" where
  "py_len (PStr s) = Some (length s)"
| "py_len (PBytes bs) = Some (length bs)"
| "py_len (PList xs) = Some (length xs)"
| "py_len (PTuple xs) = Some (length xs)"
| "py_len (PSet xs) = Some (length xs)"
| "py_len (PDict kvs) = Some (length kvs)"
| "py_len v = None"

text \<open>
  The test \<^verbatim>\<open>len(Y_true) != len(y_pred)\<close>. Its branch is \<^verbatim>\<open>pass\<close>, so its value
  changes nothing, but evaluating it raises when an answer has no length.
\<close>

definition lengths_differ :: "pyval \<Rightarrow> pyval \<Rightarrow> error + bool" where
  "lengths_differ Y_true y_pred =
     (case py_len Y_true of
        None \<Rightarrow> Inl TypeError
      | Some n \<Rightarrow>
          (case py_len y_pred of
             None \<Rightarrow> Inl TypeError
           | Some m \<Rightarrow> Inr (n \<noteq> m)))"

text \<open>The body of the loop over \<^verbatim>\<open>range(len(self.true_csv))\<close>, for one row.\<close>

definition metrics_of_row :: "libs \<Rightarrow> evaluator \<Rightarrow> nat \<Rightarrow> error + metrics" where
  "metrics_of_row L ev row =
     (case value_at (true_csv ev) ''answers'' row of
        Inl e \<Rightarrow> Inl e
      | Inr tc \<Rightarrow>
          (case decode L tc of
             Inl e \<Rightarrow> Inl e
           | Inr Y_true \<Rightarrow>
               (case value_at (pred_csv ev) ''answers'' row of
                  Inl e \<Rightarrow> Inl e
                | Inr pc \<Rightarrow>
                    (case decode L pc of
                       Inl e \<Rightarrow> Inl e
                     | Inr y_pred \<Rightarrow>
                         (case lengths_differ Y_true y_pred of
                            Inl e \<Rightarrow> Inl e
                          | Inr differ \<Rightarrow> score L Y_true y_pred)))))"

text \<open>
  The loop. The source appends to three lists, one per metric, in step; the model keeps
  one list of triples.
\<close>

fun metrics_loop :: "libs \<Rightarrow> evaluator \<Rightarrow> nat list \<Rightarrow> error + metrics list" where
  "metrics_loop L ev [] = Inr []"
| "metrics_loop L ev (row # later) =
     (case metrics_of_row L ev row of
        Inl e \<Rightarrow> Inl e
      | Inr m \<Rightarrow>
          (case metrics_loop L ev later of
             Inl e \<Rightarrow> Inl e
           | Inr ms \<Rightarrow> Inr (m # ms)))"

definition metric_cells :: "cell \<Rightarrow> metrics \<Rightarrow> cell list" where
  "metric_cells pa m = [pa, Num (wer_error m), Num (cer_error m), Num (bleu_score m)]"

text \<open>
  \<^verbatim>\<open>pd.concat([result_df, metrics], axis=1)\<close> on two frames with the same row labels.
\<close>

definition concat_metrics :: "table \<Rightarrow> cell list \<Rightarrow> metrics list \<Rightarrow> table" where
  "concat_metrics result_df pred_answers ms =
     \<lparr>columns = columns result_df @ [''pred_answers'', ''wer_error'', ''cer_error'', ''bleu_score''],
      rows = map (\<lambda>x. fst x @ metric_cells (fst (snd x)) (snd (snd x)))
               (zip (rows result_df) (zip pred_answers ms))\<rparr>"

definition calculate_metrics_by_id :: "libs \<Rightarrow> evaluator \<Rightarrow> error + table" where
  "calculate_metrics_by_id L ev =
     (case drop_column (true_csv ev) ''answear_bbox'' of
        Inl e \<Rightarrow> Inl e
      | Inr result_df \<Rightarrow>
          (case metrics_loop L ev [0..<length (rows (true_csv ev))] of
             Inl e \<Rightarrow> Inl e
           | Inr ms \<Rightarrow>
               (case column (pred_csv ev) ''answers'' of
                  Inl e \<Rightarrow> Inl e
                | Inr pred_answers \<Rightarrow>
                    if length pred_answers \<noteq> length ms then Inl LengthError
                    else Inr (concat_metrics result_df pred_answers ms))))"

section \<open>\<^verbatim>\<open>calculate_metrics_general\<close>\<close>

text \<open>
  What \<^verbatim>\<open>list.extend\<close> appends: the items of its argument in iteration order, or
  \<^verbatim>\<open>TypeError\<close> when the argument is not iterable. A text iterates over its
  characters (those of the model's strings), a dictionary over its keys.
\<close>

fun py_iter :: "pyval \<Rightarrow> pyval list option" where
  "py_iter (PList xs) = Some xs"
| "py_iter (PTuple xs) = Some xs"
| "py_iter (PSet xs) = Some xs"
| "py_iter (PDict kvs) = Some (map fst kvs)"
| "py_iter (PStr s) = Some (map (\<lambda>c. PStr [c]) s)"
| "py_iter (PBytes bs) = Some (map (\<lambda>b. PInt (int b)) bs)"
| "py_iter v = None"

fun flatten_loop ::
  "libs \<Rightarrow> evaluator \<Rightarrow> nat list \<Rightarrow> pyval list \<Rightarrow> pyval list \<Rightarrow> error + (pyval list \<times> pyval list)"
where
  "flatten_loop L ev [] true_answers pred_answers = Inr (true_answers, pred_answers)"
| "flatten_loop L ev (row # later) true_answers pred_answers =
     (case value_at (true_csv ev) ''answers'' row of
        Inl e \<Rightarrow> Inl e
      | Inr tc \<Rightarrow>
          (case decode L tc of
             Inl e \<Rightarrow> Inl e
           | Inr tv \<Rightarrow>
               (case py_iter tv of
                  None \<Rightarrow> Inl TypeError
                | Some ts \<Rightarrow>
                    (case value_at (pred_csv ev) ''answers'' row of
                       Inl e \<Rightarrow> Inl e
                     | Inr pc \<Rightarrow>
                         (case decode L pc of
                            Inl e \<Rightarrow> Inl e
                          | Inr pv \<Rightarrow>
                              (case py_iter pv of
                                 None \<Rightarrow> Inl TypeError
                               | Some ps \<Rightarrow>
                                   flatten_loop L ev later (true_answers @ ts)
                                     (pred_answers @ ps)))))))"

definition calculate_metrics_general :: "libs \<Rightarrow> evaluator \<Rightarrow> error + metrics" where
  "calculate_metrics_general L ev =
     (case flatten_loop L ev [0..<length (rows (true_csv ev))] [] [] of
        Inl e \<Rightarrow> Inl e
      | Inr ap \<Rightarrow> score L (PList (fst ap)) (PList (snd ap)))"

section \<open>Grouping\<close>

text \<open>
  pandas orders group keys of mixed types with numbers before texts before missing
  values; within the numbers and within the texts the order is the natural one (texts
  compare character by character).
\<close>

fun cell_rank :: "cell \<Rightarrow> nat \<times> real \<times> string" where
  "cell_rank (Num x) = (0, x, [])"
| "cell_rank (Text s) = (1, 0, s)"
| "cell_rank NaN = (2, 0, [])"

instantiation cell :: linorder
begin

definition less_eq_cell :: "cell \<Rightarrow> cell \<Rightarrow> bool" where
  "less_eq_cell a b = (cell_rank a \<le> cell_rank b)"

definition less_cell :: "cell \<Rightarrow> cell \<Rightarrow> bool" where
  "less_cell a b = (cell_rank a < cell_rank b)"

instance
proof
  fix x y z :: cell
  show "(x < y) = (x \<le> y \<and> \<not> y \<le> x)"
    unfolding less_eq_cell_def less_cell_def by (rule less_le_not_le)
  show "x \<le> x"
    unfolding less_eq_cell_def by simp
  show "x \<le> y \<Longrightarrow> y \<le> z \<Longrightarrow> x \<le> z"
    unfolding less_eq_cell_def by (rule order_trans)
  show "x \<le> y \<Longrightarrow> y \<le> x \<Longrightarrow> x = y"
  proof -
    assume "x \<le> y" and "y \<le> x"
    then have "cell_rank x = cell_rank y"
      unfolding less_eq_cell_def by (rule antisym)
    then show "x = y"
      by (cases x; cases y) simp_all
  qed
  show "x \<le> y \<or> y \<le> x"
    unfolding less_eq_cell_def by (rule linear)
qed

end

text \<open>
  \<^verbatim>\<open>Series.mean()\<close>: the mean of the numbers, missing values skipped; a missing value
  when there is no number; \<^verbatim>\<open>TypeError\<close> on a text.
\<close>

fun is_text :: "cell \<Rightarrow> bool" where
  "is_text (Text s) = True"
| "is_text c = False"

fun numbers :: "cell list \<Rightarrow> real list" where
  "numbers [] = []"
| "numbers (Num x # cs) = x # numbers cs"
| "numbers (c # cs) = numbers cs"

definition mean :: "real list \<Rightarrow> real" where
  "mean xs = sum_list xs / real (length xs)"

definition mean_cells :: "cell list \<Rightarrow> error + cell" where
  "mean_cells cs =
     (if list_ex is_text cs then Inl TypeError
      else if numbers cs = [] then Inr NaN
      else Inr (Num (mean (numbers cs))))"

text \<open>
  \<^verbatim>\<open>list(s.value_counts().index)\<close>: the distinct values that are not missing, the
  most frequent first, and those of equal frequency in the order the library gives them.
\<close>

definition value_counts_index :: "libs \<Rightarrow> cell list \<Rightarrow> cell list" where
  "value_counts_index L cs =
     sort_key (\<lambda>k. (- int (count_list cs k), tie_rank L cs k))
       (remdups (filter (\<lambda>c. c \<noteq> NaN) cs))"

text \<open>
  \<^verbatim>\<open>df[df[key] == k][metric].mean()\<close>. A missing value is equal to nothing, itself
  included.
\<close>

definition select_rows :: "table \<Rightarrow> string \<Rightarrow> cell \<Rightarrow> error + table" where
  "select_rows df key k =
     (case column df key of
        Inl e \<Rightarrow> Inl e
      | Inr ks \<Rightarrow>
          Inr \<lparr>columns = columns df,
               rows = map snd (filter (\<lambda>kr. fst kr = k \<and> k \<noteq> NaN) (zip ks (rows df)))\<rparr>)"

definition group_mean :: "table \<Rightarrow> string \<Rightarrow> cell \<Rightarrow> string \<Rightarrow> error + cell" where
  "group_mean df key k metric =
     (case select_rows df key k of
        Inl e \<Rightarrow> Inl e
      | Inr g \<Rightarrow>
          (case column g metric of
             Inl e \<Rightarrow> Inl e
           | Inr ms \<Rightarrow> mean_cells ms))"

section \<open>\<^verbatim>\<open>calculate_metrics_by_doc_type\<close>\<close>

text \<open>
  The loop over \<^verbatim>\<open>doc_types\<close>; the three lists of the source, grown in step, are
  the last three cells of the rows collected here.
\<close>

fun doc_type_loop :: "table \<Rightarrow> cell list \<Rightarrow> error + cell list list" where
  "doc_type_loop df [] = Inr []"
| "doc_type_loop df (doc_type # later) =
     (case group_mean df ''doc_class'' doc_type ''wer_error'' of
        Inl e \<Rightarrow> Inl e
      | Inr w \<Rightarrow>
          (case group_mean df ''doc_class'' doc_type ''cer_error'' of
             Inl e \<Rightarrow> Inl e
           | Inr c \<Rightarrow>
               (case group_mean df ''doc_class'' doc_type ''bleu_score'' of
                  Inl e \<Rightarrow> Inl e
                | Inr b \<Rightarrow>
                    (case doc_type_loop df later of
                       Inl e \<Rightarrow> Inl e
                     | Inr rs \<Rightarrow> Inr ([doc_type, w, c, b] # rs)))))"

definition calculate_metrics_by_doc_type :: "libs \<Rightarrow> table \<Rightarrow> error + table" where
  "calculate_metrics_by_doc_type L df =
     (case column df ''doc_class'' of
        Inl e \<Rightarrow> Inl e
      | Inr dc \<Rightarrow>
          (case doc_type_loop df (value_counts_index L dc) of
             Inl e \<Rightarrow> Inl e
           | Inr rs \<Rightarrow>
               Inr \<lparr>columns = [''doc_class'', ''wer_error'', ''cer_error'', ''bleu_score''],
                    rows = rs\<rparr>))"

section \<open>\<^verbatim>\<open>group_by_doc_question\<close>\<close>






section \<open>Notions used in the statements\<close>

text \<open>
  The answers cell of a row; the cells a row of the per-row table holds under
  \<^verbatim>\<open>wer_error\<close>, \<^verbatim>\<open>cer_error\<close> and \<^verbatim>\<open>bleu_score\<close>, which are its last three;
  and what the spec calls a string sequence: a list all of whose items are texts.
\<close>

definition answers_cell :: "table \<Rightarrow> nat \<Rightarrow> cell" where
  "answers_cell df row = cell_at (columns df) (rows df ! row) ''answers''"


fun is_str :: "pyval \<Rightarrow> bool" where
  "is_str (PStr s) = True"
| "is_str v = False"

fun string_sequence :: "pyval \<Rightarrow> bool" where
  "string_sequence (PList xs) = list_all is_str xs"
| "string_sequence v = False"


text \<open>
  The cells of a column, whether the column holds numbers only, and the arithmetic mean
  of a metric over the rows of one document class, or of one pair of document class and
  question type. \<open>first_seen cs k\<close> is the position at which \<open>k\<close> first occurs in \<open>cs\<close>.
\<close>

definition cells_of :: "table \<Rightarrow> string \<Rightarrow> cell list" where
  "cells_of df name = map (\<lambda>r. cell_at (columns df) r name) (rows df)"

fun is_num :: "cell \<Rightarrow> bool" where
  "is_num (Num x) = True"
| "is_num c = False"

fun number_of :: "cell \<Rightarrow> real" where
  "number_of (Num x) = x"
| "number_of c = 0"

definition numeric_column :: "table \<Rightarrow> string \<Rightarrow> bool" where
  "numeric_column df name = (name \<in> set (columns df) \<and> list_all is_num (cells_of df name))"

definition class_mean :: "table \<Rightarrow> cell \<Rightarrow> string \<Rightarrow> real" where
  "class_mean df k name =
     mean (map (\<lambda>r. number_of (cell_at (columns df) r name))
            (filter (\<lambda>r. cell_at (columns df) r ''doc_class'' = k) (rows df)))"



definition first_seen :: "cell list \<Rightarrow> cell \<Rightarrow> nat" where
  "first_seen cs k = length (takeWhile (\<lambda>c. c \<noteq> k) cs)"

section \<open>A concrete library instance\<close>

text \<open>
  The runs below need one concrete behaviour of the libraries. Every theorem about the
  evaluator holds for all behaviours; this instance only serves to run it on explicit
  tables.

  \<open>read_csv_plain\<close> reads a file given by its text, for plain texts: lines end in a
  line feed, blank lines are skipped, the first line is the header, a line is split at
  every separator (no quoting), an empty field is a missing value, a short line is
  padded with missing values, and a data line with more fields than the header is a
  \<^verbatim>\<open>ParserError\<close> (pandas reports it so for every data line but the first, whose
  surplus fields it reads as row labels; no file below has such a first line). Fields
  stay texts: the inference of numeric columns is left out, and the files used below hold
  no numeric field.
\<close>

definition TAB :: char where
  "TAB = CHR 0x09"

definition LF :: char where
  "LF = CHR 0x0A"

fun sep_char :: "sep \<Rightarrow> char" where
  "sep_char Comma = CHR '',''"
| "sep_char Tab = TAB"

fun split_on :: "char \<Rightarrow> string \<Rightarrow> string list" where
  "split_on d [] = [[]]"
| "split_on d (c # cs) =
     (if c = d then [] # split_on d cs
      else (case split_on d cs of
              [] \<Rightarrow> [[c]]
            | f # fs \<Rightarrow> (c # f) # fs))"

definition field_cell :: "string \<Rightarrow> cell" where
  "field_cell f = (if f = [] then NaN else Text f)"

definition read_csv_plain :: "string \<Rightarrow> sep \<Rightarrow> pd_error + table" where
  "read_csv_plain text s =
     (case filter (\<lambda>l. l \<noteq> []) (split_on LF text) of
        [] \<Rightarrow> Inl EmptyDataError
      | header # body \<Rightarrow>
          (let hdr = split_on (sep_char s) header;
               rs = map (split_on (sep_char s)) body
           in if list_ex (\<lambda>r. length hdr < length r) rs then Inl ParserError
              else Inr \<lparr>columns = hdr,
                        rows = map (\<lambda>r. map field_cell r @ replicate (length hdr - length r) NaN) rs\<rparr>))"

text \<open>
  \<open>literal_eval_plain\<close> evaluates a fragment of Python's literals: an unsigned decimal
  integer without a leading zero, a text between two single or two double quotes with
  no backslash in it, and a bracketed list of such integers and texts, separated by
  commas, with blanks allowed around the items. On a text of the fragment it returns
  what \<^verbatim>\<open>ast.literal_eval\<close> returns. Any other text it rejects, although Python has
  more literals than these.
\<close>

definition is_digit :: "char \<Rightarrow> bool" where
  "is_digit c = (CHR ''0'' \<le> c \<and> c \<le> CHR ''9'')"

definition digits_value :: "string \<Rightarrow> nat" where
  "digits_value ds = foldl (\<lambda>n c. 10 * n + (of_char c - 48)) 0 ds"

definition skip_blanks :: "string \<Rightarrow> string" where
  "skip_blanks cs = dropWhile (\<lambda>c. c = CHR '' '' \<or> c = TAB) cs"

fun parse_atom :: "string \<Rightarrow> (pyval \<times> string) option" where
  "parse_atom [] = None"
| "parse_atom (c # cs) =
     (if c = CHR 0x27 \<or> c = CHR 0x22 then
        (let body = takeWhile (\<lambda>x. x \<noteq> c) cs; rest = dropWhile (\<lambda>x. x \<noteq> c) cs
         in if rest = [] \<or> CHR 0x5C \<in> set body \<or> LF \<in> set body then None
            else Some (PStr body, tl rest))
      else if is_digit c then
        (let ds = takeWhile is_digit (c # cs); rest = dropWhile is_digit (c # cs)
         in if c = CHR ''0'' \<and> length ds > 1 then None
            else Some (PInt (int (digits_value ds)), rest))
      else None)"

fun parse_items :: "nat \<Rightarrow> string \<Rightarrow> (pyval list \<times> string) option" where
  "parse_items 0 cs = None"
| "parse_items (Suc n) cs =
     (case parse_atom (skip_blanks cs) of
        None \<Rightarrow> None
      | Some vr \<Rightarrow>
          (case skip_blanks (snd vr) of
             [] \<Rightarrow> None
           | c # r \<Rightarrow>
               if c = CHR '']'' then Some ([fst vr], r)
               else if c = CHR '','' then
                 (case skip_blanks r of
                    [] \<Rightarrow> None
                  | d # r' \<Rightarrow>
                      if d = CHR '']'' then Some ([fst vr], r')
                      else (case parse_items n (d # r') of
                              None \<Rightarrow> None
                            | Some vs \<Rightarrow> Some (fst vr # fst vs, snd vs)))
               else None))"

definition literal_eval_plain :: "string \<Rightarrow> pyval option" where
  "literal_eval_plain s =
     (case skip_blanks s of
        [] \<Rightarrow> None
      | c # r \<Rightarrow>
          if c = CHR ''['' then
            (case skip_blanks r of
               [] \<Rightarrow> None
             | d # r' \<Rightarrow>
                 if d = CHR '']'' then (if skip_blanks r' = [] then Some (PList []) else None)
                 else (case parse_items (length r) r of
                         None \<Rightarrow> None
                       | Some vs \<Rightarrow> if skip_blanks (snd vs) = [] then Some (PList (fst vs)) else None))
          else (case parse_atom (c # r) of
                  None \<Rightarrow> None
                | Some vr \<Rightarrow> if skip_blanks (snd vr) = [] then Some (fst vr) else None))"

text \<open>
  \<open>jiwer_wer\<close> and \<open>jiwer_cer\<close> are the two rates as jiwer 3 computes them with its
  default transformations. An argument is a text (one sentence) or a list of texts;
  anything else raises. The two arguments must have the same number of sentences and no
  reference sentence may be empty, or jiwer raises. A sentence is cut into words at
  blanks (for the word error rate) or, stripped of the blanks at its ends, into its
  characters (for the character error rate); the rate is the sum of the edit distances
  of the paired sentences, divided by the number of reference words or characters.
\<close>

fun edit_distance :: "'a list \<Rightarrow> 'a list \<Rightarrow> nat" where
  "edit_distance [] ys = length ys"
| "edit_distance (x # xs) [] = Suc (length xs)"
| "edit_distance (x # xs) (y # ys) =
     (if x = y then edit_distance xs ys
      else Suc (min (edit_distance xs ys)
                 (min (edit_distance xs (y # ys)) (edit_distance (x # xs) ys))))"

definition words :: "string \<Rightarrow> string list" where
  "words s = filter (\<lambda>w. w \<noteq> []) (split_on (CHR '' '') s)"

definition strip :: "string \<Rightarrow> string" where
  "strip s = rev (skip_blanks (rev (skip_blanks s)))"

fun str_of :: "pyval \<Rightarrow> string" where
  "str_of (PStr s) = s"
| "str_of v = []"

fun sentences :: "pyval \<Rightarrow> string list option" where
  "sentences (PStr s) = Some [s]"
| "sentences (PList xs) = (if list_all is_str xs then Some (map str_of xs) else None)"
| "sentences v = None"

definition jiwer_rate :: "(string \<Rightarrow> 'a list) \<Rightarrow> pyval \<Rightarrow> pyval \<Rightarrow> real option" where
  "jiwer_rate tokens reference hypothesis =
     (case sentences reference of
        None \<Rightarrow> None
      | Some rs \<Rightarrow>
          (case sentences hypothesis of
             None \<Rightarrow> None
           | Some hs \<Rightarrow>
               if length rs = length hs \<and> list_all (\<lambda>r. 0 < length r) rs
                  \<and> 0 < sum_list (map (\<lambda>r. length (tokens r)) rs)
               then Some (real (sum_list (map (\<lambda>rh. edit_distance (tokens (fst rh)) (tokens (snd rh)))
                                          (zip rs hs)))
                          / real (sum_list (map (\<lambda>r. length (tokens r)) rs)))
               else None))"

definition jiwer_wer :: "pyval \<Rightarrow> pyval \<Rightarrow> real option" where
  "jiwer_wer = jiwer_rate words"

definition jiwer_cer :: "pyval \<Rightarrow> pyval \<Rightarrow> real option" where
  "jiwer_cer = jiwer_rate strip"

text \<open>
  A stand-in for sacrebleu: a score that is 100 when the hypotheses are the one stream
  of references and 0 otherwise. Its values are not those of \<^verbatim>\<open>sacrebleu\<close>; no
  statement below rests on them.
\<close>

definition match_score :: "bleu_args \<Rightarrow> real option" where
  "match_score a = Some (if references a = [hypotheses a] then 100 else 0)"

text \<open>
  One order of equally frequent values: the reverse of the order in which they first
  appear in the column.
\<close>

definition reverse_first_seen :: "cell list \<Rightarrow> cell \<Rightarrow> nat" where
  "reverse_first_seen cs k = length cs - first_seen cs k"

definition plain_libs :: libs where
  "plain_libs = \<lparr>read_csv = read_csv_plain, literal_eval = literal_eval_plain,
     wer = jiwer_wer, cer = jiwer_cer, corpus_bleu = match_score,
     tie_rank = reverse_first_seen, pandas = Before_2_0\<rparr>"


text \<open>Files for the runs below, given by their texts.\<close>

definition file_ab :: string where
  "file_ab = ''a,b'' @ [LF] @ ''x,y'' @ [LF]"

definition file_ac :: string where
  "file_ac = ''a,c'' @ [LF] @ ''x,y'' @ [LF]"

definition file_ab2 :: string where
  "file_ab2 = ''a,b'' @ [LF] @ ''x,y'' @ [LF] @ ''u,v'' @ [LF]"

definition file_tsv :: string where
  "file_tsv = ''a'' @ [TAB] @ ''b'' @ [LF] @ ''x'' @ [TAB] @ ''y'' @ [LF]"

definition file_tsv_commas :: string where
  "file_tsv_commas =
     ''a'' @ [TAB] @ ''b'' @ [LF] @ ''x'' @ [TAB] @ ''y'' @ [LF] @ ''u,v'' @ [TAB] @ ''w'' @ [LF]"

definition file_ragged :: string where
  "file_ragged = ''a'' @ [LF] @ ''x'' @ [LF] @ ''u,v'' @ [TAB] @ ''w'' @ [LF]"



definition ev_bad_answers :: evaluator where
  "ev_bad_answers =
     \<lparr>true_csv = \<lparr>columns = [''answers'', ''answear_bbox''],
                  rows = [[Text ''['a']'', NaN], [Text ''oops'', NaN], [Text ''['c']'', NaN]]\<rparr>,
      pred_csv = \<lparr>columns = [''answers'', ''answear_bbox''],
                  rows = [[Text ''['a']'', NaN], [Text ''['b']'', NaN], [Text ''['c']'', NaN]]\<rparr>\<rparr>"


definition ev_one_row :: evaluator where
  "ev_one_row =
     \<lparr>true_csv = \<lparr>columns = [''answers'', ''answear_bbox''],
                  rows = [[Text ''['cat', 'dog']'', Text ''[[1, 2]]'']]\<rparr>,
      pred_csv = \<lparr>columns = [''answers'', ''answear_bbox''],
                  rows = [[Text ''['cat', 'dog']'', NaN]]\<rparr>\<rparr>"




text \<open>An answers cell that is the literal of a text, not of a list.\<close>

definition quoted :: "string \<Rightarrow> string" where
  "quoted s = CHR 0x27 # s @ [CHR 0x27]"

definition ev_text_answers :: evaluator where
  "ev_text_answers =
     \<lparr>true_csv = \<lparr>columns = [''answers'', ''answear_bbox''],
                  rows = [[Text (quoted ''abc''), NaN]]\<rparr>,
      pred_csv = \<lparr>columns = [''answers'', ''answear_bbox''],
                  rows = [[Text (quoted ''abd''), NaN]]\<rparr>\<rparr>"

text \<open>A per-row metrics table for the runs below.\<close>

definition df_metrics :: table where
  "df_metrics =
     \<lparr>columns = [''doc_class'', ''question_type'', ''wer_error'', ''cer_error'', ''bleu_score''],
      rows = [[Text ''receipt'', Text ''total'', Num 1, Num (1 / 2), Num 40],
              [Text ''invoice'', Text ''total'', Num 0, Num 0, Num 100],
              [Text ''invoice'', Text ''date'', Num 1, Num (1 / 2), Num 50],
              [NaN, Text ''date'', Num 1, Num 1, Num 0],
              [Text ''contract'', Text ''date'', Num (1 / 2), Num (1 / 4), Num 60],
              [Text ''invoice'', Text ''date'', Num 0, Num (1 / 2), Num 60]]\<rparr>"

section \<open>Runs of the concrete instance\<close>

lemmas plain_eval = plain_libs_def read_csv_plain_def literal_eval_plain_def skip_blanks_def
  TAB_def LF_def is_digit_def digits_value_def field_cell_def match_score_def
  jiwer_wer_def jiwer_cer_def jiwer_rate_def words_def strip_def quoted_def

lemma read_file_ab:
  "read_file plain_libs file_ab = Inr \<lparr>columns = [''a'', ''b''], rows = [[Text ''x'', Text ''y'']]\<rparr>"
  by (simp add: read_file_def plain_eval file_ab_def)

lemma read_file_ac:
  "read_file plain_libs file_ac = Inr \<lparr>columns = [''a'', ''c''], rows = [[Text ''x'', Text ''y'']]\<rparr>"
  by (simp add: read_file_def plain_eval file_ac_def)

lemma read_file_ab2:
  "read_file plain_libs file_ab2
     = Inr \<lparr>columns = [''a'', ''b''], rows = [[Text ''x'', Text ''y''], [Text ''u'', Text ''v'']]\<rparr>"
  by (simp add: read_file_def plain_eval file_ab2_def)

lemma comma_ab:
  "read_csv plain_libs file_ab Comma
     = Inr \<lparr>columns = [''a'', ''b''], rows = [[Text ''x'', Text ''y'']]\<rparr>"
  by (simp add: plain_eval file_ab_def)

lemma comma_tsv_commas: "read_csv plain_libs file_tsv_commas Comma = Inl ParserError"
  by (simp add: plain_eval file_tsv_commas_def)

lemma tab_tsv_commas:
  "read_csv plain_libs file_tsv_commas Tab
     = Inr \<lparr>columns = [''a'', ''b''], rows = [[Text ''x'', Text ''y''], [Text ''u,v'', Text ''w'']]\<rparr>"
  by (simp add: plain_eval file_tsv_commas_def)

lemma comma_ragged: "read_csv plain_libs file_ragged Comma = Inl ParserError"
  by (simp add: plain_eval file_ragged_def)

lemma tab_ragged: "read_csv plain_libs file_ragged Tab = Inl ParserError"
  by (simp add: plain_eval file_ragged_def)

lemmas run_eval = validate_data_def answers_cell_def cell_at_def decode_def score_def bleu_call_def
  metrics_of_row_def lengths_differ_def value_at_def column_def drop_column_def drop_cells_def
  calculate_metrics_by_id_def concat_metrics_def metric_cells_def



lemmas group_eval = cells_of_def numeric_column_def cell_at_def column_def select_rows_def
  group_mean_def mean_cells_def mean_def value_counts_index_def reverse_first_seen_def
  first_seen_def less_eq_prod_def
  calculate_metrics_by_doc_type_def

section \<open>Loading\<close>

text \<open>
  C6. \<^verbatim>\<open>read_file\<close> parses with the comma first and returns that parse whenever it
  yields a table. When the comma parse fails with \<^verbatim>\<open>ParserError\<close>, it falls back to
  the tab parse and returns the tab parse's table. It returns a table other than the comma
  parse's only in that case. And when neither parse yields a table, loading fails with
  the parser's exception (the spec's FormatError).
\<close>

theorem read_file_comma_then_tab:
  "(\<forall>t. read_csv L f Comma = Inr t \<longrightarrow> read_file L f = Inr t)
   \<and> (\<forall>t. read_csv L f Comma = Inl ParserError \<and> read_csv L f Tab = Inr t
          \<longrightarrow> read_file L f = Inr t)
   \<and> (\<forall>t. read_file L f = Inr t \<and> read_csv L f Comma \<noteq> Inr t
          \<longrightarrow> read_csv L f Comma = Inl ParserError \<and> read_csv L f Tab = Inr t)
   \<and> (\<forall>e1 e2. read_csv L f Comma = Inl e1 \<and> read_csv L f Tab = Inl e2
          \<longrightarrow> (\<exists>e. read_file L f = Inl (FormatError e)))"
  by (auto simp: read_file_def split: sum.splits pd_error.splits)

theorem read_file_comma_then_tab_witness:
  "read_file plain_libs file_ab = Inr \<lparr>columns = [''a'', ''b''], rows = [[Text ''x'', Text ''y'']]\<rparr>
   \<and> read_csv plain_libs file_tsv_commas Comma = Inl ParserError
   \<and> read_file plain_libs file_tsv_commas
       = Inr \<lparr>columns = [''a'', ''b''], rows = [[Text ''x'', Text ''y''], [Text ''u,v'', Text ''w'']]\<rparr>
   \<and> (\<exists>e. read_file plain_libs file_ragged = Inl (FormatError e))"
proof -
  note h = read_file_comma_then_tab [of plain_libs]
  have 1: "read_file plain_libs file_ab
             = Inr \<lparr>columns = [''a'', ''b''], rows = [[Text ''x'', Text ''y'']]\<rparr>"
    using h [of file_ab] comma_ab by blast
  have 2: "read_file plain_libs file_tsv_commas
       = Inr \<lparr>columns = [''a'', ''b''], rows = [[Text ''x'', Text ''y''], [Text ''u,v'', Text ''w'']]\<rparr>"
    using h [of file_tsv_commas] comma_tsv_commas tab_tsv_commas by blast
  have 3: "\<exists>e. read_file plain_libs file_ragged = Inl (FormatError e)"
    using h [of file_ragged] comma_ragged tab_ragged by blast
  show ?thesis using 1 2 3 comma_tsv_commas by simp
qed

text \<open>
  C7. A tab-delimited file with no comma in it is not read as the comma-delimited file of
  the same content: its comma parse raises nothing, so \<^verbatim>\<open>read_file\<close> returns a table
  with one column whose label and cells are whole lines, and the tab parse, which would
  give the two columns, is never tried.
\<close>

theorem tsv_read_as_one_column:
  "read_file plain_libs file_tsv
     = Inr \<lparr>columns = [''a'' @ [TAB] @ ''b''], rows = [[Text (''x'' @ [TAB] @ ''y'')]]\<rparr>
   \<and> read_file plain_libs file_ab
     = Inr \<lparr>columns = [''a'', ''b''], rows = [[Text ''x'', Text ''y'']]\<rparr>
   \<and> read_csv plain_libs file_tsv Tab
     = Inr \<lparr>columns = [''a'', ''b''], rows = [[Text ''x'', Text ''y'']]\<rparr>"
  by (simp add: read_file_def plain_eval file_tsv_def file_ab_def)

section \<open>Validation\<close>

text \<open>
  C3. Once both tables are loaded, construction fails with SchemaMismatchError exactly
  when the two sequences of column labels differ, with RowCountMismatchError exactly when
  they are equal and the numbers of rows differ, and it succeeds, keeping the two tables,
  exactly when labels and numbers of rows are equal; validation raises nothing else.
\<close>

theorem validation_outcomes:
  assumes "read_file L true_file = Inr t" and "read_file L prediction_file = Inr p"
  shows "((MetricEvaluator_init L true_file prediction_file = Inl SchemaMismatchError)
            = (columns t \<noteq> columns p))
       \<and> ((MetricEvaluator_init L true_file prediction_file = Inl RowCountMismatchError)
            = (columns t = columns p \<and> length (rows t) \<noteq> length (rows p)))
       \<and> ((MetricEvaluator_init L true_file prediction_file = Inr \<lparr>true_csv = t, pred_csv = p\<rparr>)
            = (columns t = columns p \<and> length (rows t) = length (rows p)))
       \<and> (\<forall>e. MetricEvaluator_init L true_file prediction_file = Inl e
            \<longrightarrow> e = SchemaMismatchError \<or> e = RowCountMismatchError)"
  using assms by (simp add: MetricEvaluator_init_def validate_data_def)

theorem validation_outcomes_witness:
  "MetricEvaluator_init plain_libs file_ab file_ab
     = Inr \<lparr>true_csv = \<lparr>columns = [''a'', ''b''], rows = [[Text ''x'', Text ''y'']]\<rparr>,
            pred_csv = \<lparr>columns = [''a'', ''b''], rows = [[Text ''x'', Text ''y'']]\<rparr>\<rparr>
   \<and> MetricEvaluator_init plain_libs file_ab file_ac = Inl SchemaMismatchError
   \<and> MetricEvaluator_init plain_libs file_ab file_ab2 = Inl RowCountMismatchError"
  using validation_outcomes [OF read_file_ab read_file_ab]
    validation_outcomes [OF read_file_ab read_file_ac]
    validation_outcomes [OF read_file_ab read_file_ab2]
  by simp

section \<open>The BLEU call\<close>

text \<open>
  The \<^verbatim>\<open>bleu_score\<close> of a pair of decoded answers is what the library returns with the
  first of them as \<^verbatim>\<open>hypotheses\<close> and the second as the only stream of
  \<^verbatim>\<open>references\<close>.
\<close>

lemma score_bleu_arguments:
  "score L Y_true y_pred = Inr m \<Longrightarrow>
     corpus_bleu L \<lparr>hypotheses = Y_true, references = [y_pred]\<rparr> = Some (bleu_score m)"
  by (auto simp: score_def bleu_call_def split: option.splits)

text \<open>
  C2. In the call \<^verbatim>\<open>sacrebleu.corpus_bleu(Y_true, [y_pred])\<close> the decoded reference
  answers are bound to the library's \<^verbatim>\<open>hypotheses\<close> and the decoded predicted answers
  are its one stream of \<^verbatim>\<open>references\<close>: the two roles are exchanged.
\<close>

theorem bleu_truth_as_hypotheses:
  "decode plain_libs (Text ''['the cat sat on the mat']'')
     = Inr (PList [PStr ''the cat sat on the mat''])
   \<and> decode plain_libs (Text ''['the cat']'') = Inr (PList [PStr ''the cat''])
   \<and> bleu_call (PList [PStr ''the cat sat on the mat'']) (PList [PStr ''the cat''])
     = \<lparr>hypotheses = PList [PStr ''the cat sat on the mat''],
        references = [PList [PStr ''the cat'']]\<rparr>"
  by (simp add: decode_def bleu_call_def plain_eval)

section \<open>The per-row table\<close>

lemma value_at_Inr:
  "(value_at df name row = Inr c)
     = (name \<in> set (columns df) \<and> row < length (rows df)
        \<and> c = cell_at (columns df) (rows df ! row) name)"
  by (auto simp: value_at_def column_def)

lemma metrics_loop_Inr:
  "(metrics_loop L ev is = Inr ms) = list_all2 (\<lambda>i m. metrics_of_row L ev i = Inr m) is ms"
proof (induction "is" arbitrary: ms)
  case Nil
  then show ?case by auto
next
  case (Cons i "is")
  show ?case
  proof (cases "metrics_of_row L ev i")
    case (Inl e)
    then show ?thesis by (auto simp: list_all2_Cons1)
  next
    case (Inr m)
    then show ?thesis
      using Cons.IH by (cases "metrics_loop L ev is") (auto simp: list_all2_Cons1)
  qed
qed

lemma metrics_loop_Inl:
  "(metrics_loop L ev is = Inl e)
     = (\<exists>k < length is. (\<forall>j < k. \<exists>m. metrics_of_row L ev (is ! j) = Inr m)
          \<and> metrics_of_row L ev (is ! k) = Inl e)"
proof (induction "is")
  case Nil
  then show ?case by simp
next
  case (Cons i "is")
  show ?case
  proof (cases "metrics_of_row L ev i")
    case (Inl e')
    show ?thesis
    proof
      assume "metrics_loop L ev (i # is) = Inl e"
      with Inl have "e' = e" by simp
      with Inl show "\<exists>k<length (i # is). (\<forall>j<k. \<exists>m. metrics_of_row L ev ((i # is) ! j) = Inr m)
          \<and> metrics_of_row L ev ((i # is) ! k) = Inl e"
        by (intro exI [of _ 0]) simp
    next
      assume "\<exists>k<length (i # is). (\<forall>j<k. \<exists>m. metrics_of_row L ev ((i # is) ! j) = Inr m)
          \<and> metrics_of_row L ev ((i # is) ! k) = Inl e"
      then obtain k where k: "k < length (i # is)"
        "\<forall>j<k. \<exists>m. metrics_of_row L ev ((i # is) ! j) = Inr m"
        "metrics_of_row L ev ((i # is) ! k) = Inl e" by blast
      have "k = 0"
      proof (rule ccontr)
        assume "k \<noteq> 0"
        then have "0 < k" by simp
        with k(2) obtain m where "metrics_of_row L ev ((i # is) ! 0) = Inr m" by blast
        with Inl show False by simp
      qed
      with k(3) Inl show "metrics_loop L ev (i # is) = Inl e" by simp
    qed
  next
    case (Inr m)
    have step: "(metrics_loop L ev (i # is) = Inl e) = (metrics_loop L ev is = Inl e)"
      using Inr by (cases "metrics_loop L ev is") auto
    show ?thesis
    proof
      assume "metrics_loop L ev (i # is) = Inl e"
      with step Cons.IH obtain k where k: "k < length is"
        "\<forall>j<k. \<exists>m. metrics_of_row L ev (is ! j) = Inr m"
        "metrics_of_row L ev (is ! k) = Inl e" by blast
      have "\<forall>j<Suc k. \<exists>m. metrics_of_row L ev ((i # is) ! j) = Inr m"
        using k(2) Inr by (auto simp: nth_Cons split: nat.splits)
      with k(1,3) show "\<exists>k<length (i # is). (\<forall>j<k. \<exists>m. metrics_of_row L ev ((i # is) ! j) = Inr m)
          \<and> metrics_of_row L ev ((i # is) ! k) = Inl e"
        by (intro exI [of _ "Suc k"]) simp
    next
      assume "\<exists>k<length (i # is). (\<forall>j<k. \<exists>m. metrics_of_row L ev ((i # is) ! j) = Inr m)
          \<and> metrics_of_row L ev ((i # is) ! k) = Inl e"
      then obtain k where k: "k < length (i # is)"
        "\<forall>j<k. \<exists>m. metrics_of_row L ev ((i # is) ! j) = Inr m"
        "metrics_of_row L ev ((i # is) ! k) = Inl e" by blast
      from k(3) Inr obtain k' where k': "k = Suc k'" by (cases k) auto
      have "\<forall>j<k'. \<exists>m. metrics_of_row L ev (is ! j) = Inr m"
      proof (intro allI impI)
        fix j assume "j < k'"
        then have "Suc j < k" using k' by simp
        with k(2) have "\<exists>m. metrics_of_row L ev ((i # is) ! Suc j) = Inr m" by blast
        then show "\<exists>m. metrics_of_row L ev (is ! j) = Inr m" by simp
      qed
      with k k' have "metrics_loop L ev is = Inl e"
        using Cons.IH by auto
      with step show "metrics_loop L ev (i # is) = Inl e" by simp
    qed
  qed
qed

lemma metrics_loop_length: "metrics_loop L ev is = Inr ms \<Longrightarrow> length ms = length is"
  by (simp add: metrics_loop_Inr list_all2_lengthD)


lemma score_error: "score L Y y = Inl e \<Longrightarrow> e = MetricError"
  by (auto simp: score_def split: option.splits)

lemma lengths_differ_error: "lengths_differ Y y = Inl e \<Longrightarrow> e = TypeError"
  by (auto simp: lengths_differ_def split: option.splits)

lemma decode_error: "decode L c = Inl e \<Longrightarrow> e = DecodeError"
  by (auto simp: decode_def split: cell.splits option.splits)

lemma concat_metrics_nth:
  assumes "i < length rs" and "length pas = length rs" and "length ms = length rs"
  shows "rows (concat_metrics \<lparr>columns = cs, rows = rs\<rparr> pas ms) ! i
           = rs ! i @ metric_cells (pas ! i) (ms ! i)"
  using assms by (simp add: concat_metrics_def)

lemma by_id_Inr:
  "(calculate_metrics_by_id L ev = Inr out)
     = (''answear_bbox'' \<in> set (columns (true_csv ev))
        \<and> ''answers'' \<in> set (columns (pred_csv ev))
        \<and> length (rows (pred_csv ev)) = length (rows (true_csv ev))
        \<and> (\<exists>ms. metrics_loop L ev [0..<length (rows (true_csv ev))] = Inr ms
              \<and> out = concat_metrics
                   \<lparr>columns = filter (\<lambda>c. c \<noteq> ''answear_bbox'') (columns (true_csv ev)),
                    rows = map (drop_cells (columns (true_csv ev)) ''answear_bbox'')
                             (rows (true_csv ev))\<rparr>
                   (map (\<lambda>r. cell_at (columns (pred_csv ev)) r ''answers'') (rows (pred_csv ev)))
                   ms))"
  by (auto simp: calculate_metrics_by_id_def drop_column_def column_def
      split: sum.splits if_splits dest: metrics_loop_length)

lemma by_id_rows:
  assumes "calculate_metrics_by_id L ev = Inr out"
  shows "columns out = filter (\<lambda>c. c \<noteq> ''answear_bbox'') (columns (true_csv ev))
                         @ [''pred_answers'', ''wer_error'', ''cer_error'', ''bleu_score'']"
    and "length (rows out) = length (rows (true_csv ev))"
    and "i < length (rows (true_csv ev)) \<Longrightarrow>
           \<exists>m. metrics_of_row L ev i = Inr m
             \<and> rows out ! i = drop_cells (columns (true_csv ev)) ''answear_bbox'' (rows (true_csv ev) ! i)
                                @ metric_cells (answers_cell (pred_csv ev) i) m"
proof -
  from assms obtain ms where
    len: "length (rows (pred_csv ev)) = length (rows (true_csv ev))" and
    ms: "list_all2 (\<lambda>i m. metrics_of_row L ev i = Inr m) [0..<length (rows (true_csv ev))] ms" and
    out: "out = concat_metrics
                   \<lparr>columns = filter (\<lambda>c. c \<noteq> ''answear_bbox'') (columns (true_csv ev)),
                    rows = map (drop_cells (columns (true_csv ev)) ''answear_bbox'')
                             (rows (true_csv ev))\<rparr>
                   (map (\<lambda>r. cell_at (columns (pred_csv ev)) r ''answers'') (rows (pred_csv ev)))
                   ms"
    unfolding by_id_Inr metrics_loop_Inr by blast
  have lms: "length ms = length (rows (true_csv ev))"
    using list_all2_lengthD [OF ms] by simp
  show "columns out = filter (\<lambda>c. c \<noteq> ''answear_bbox'') (columns (true_csv ev))
                         @ [''pred_answers'', ''wer_error'', ''cer_error'', ''bleu_score'']"
    by (simp add: out concat_metrics_def)
  show "length (rows out) = length (rows (true_csv ev))"
    by (simp add: out concat_metrics_def len lms)
  show "\<exists>m. metrics_of_row L ev i = Inr m
             \<and> rows out ! i = drop_cells (columns (true_csv ev)) ''answear_bbox'' (rows (true_csv ev) ! i)
                                @ metric_cells (answers_cell (pred_csv ev) i) m"
    if i: "i < length (rows (true_csv ev))"
  proof -
    have "metrics_of_row L ev ([0..<length (rows (true_csv ev))] ! i) = Inr (ms ! i)"
      using list_all2_nthD [OF ms, of i] i by simp
    then have m: "metrics_of_row L ev i = Inr (ms ! i)" using i by simp
    have "rows out ! i = drop_cells (columns (true_csv ev)) ''answear_bbox'' (rows (true_csv ev) ! i)
                                @ metric_cells (answers_cell (pred_csv ev) i) (ms ! i)"
      unfolding out using i len lms
      by (subst concat_metrics_nth) (simp_all add: answers_cell_def)
    with m show ?thesis by blast
  qed
qed

lemma by_id_DecodeError:
  "(calculate_metrics_by_id L ev = Inl DecodeError)
     = (''answear_bbox'' \<in> set (columns (true_csv ev))
        \<and> metrics_loop L ev [0..<length (rows (true_csv ev))] = Inl DecodeError)"
  by (auto simp: calculate_metrics_by_id_def drop_column_def column_def
      split: sum.splits if_splits)

lemma metrics_of_row_DecodeError:
  "(metrics_of_row L ev i = Inl DecodeError)
     = (''answers'' \<in> set (columns (true_csv ev)) \<and> i < length (rows (true_csv ev))
        \<and> (decode L (answers_cell (true_csv ev) i) = Inl DecodeError
           \<or> (\<exists>Y_true. decode L (answers_cell (true_csv ev) i) = Inr Y_true
                \<and> ''answers'' \<in> set (columns (pred_csv ev)) \<and> i < length (rows (pred_csv ev))
                \<and> decode L (answers_cell (pred_csv ev) i) = Inl DecodeError)))"
  by (auto simp: metrics_of_row_def value_at_def column_def answers_cell_def
      split: sum.splits if_splits dest: score_error decode_error lengths_differ_error)


lemma cell_at_in_columns: "cell_at cols r name \<noteq> NaN \<Longrightarrow> name \<in> set cols"
  by (auto simp: cell_at_def split: option.splits dest!: map_of_SomeD set_zip_leftD)

lemma decode_Inr_in_columns:
  assumes "decode L (answers_cell df i) = Inr v"
  shows "''answers'' \<in> set (columns df)"
proof -
  from assms have "answers_cell df i \<noteq> NaN" by (auto simp: decode_def)
  then show ?thesis unfolding answers_cell_def by (rule cell_at_in_columns)
qed




text \<open>
  C8, as the code has it. Decoding a cell fails exactly when the cell is not a text that
  \<^verbatim>\<open>ast.literal_eval\<close> accepts; a row fails with DecodeError exactly when its reference
  answers do not decode, or they do and its predicted answers do not; and the whole
  computation ends in DecodeError, with no table, exactly when the bounding-box column
  is there and the first row that fails is one that fails with DecodeError. Rows after
  it play no part.
\<close>

theorem decode_error_aborts:
  "((decode L c = Inl DecodeError) = (\<forall>s. c = Text s \<longrightarrow> literal_eval L s = None))
   \<and> ((metrics_of_row L ev i = Inl DecodeError)
        = (''answers'' \<in> set (columns (true_csv ev)) \<and> i < length (rows (true_csv ev))
           \<and> (decode L (answers_cell (true_csv ev) i) = Inl DecodeError
              \<or> (\<exists>Y_true. decode L (answers_cell (true_csv ev) i) = Inr Y_true
                   \<and> ''answers'' \<in> set (columns (pred_csv ev)) \<and> i < length (rows (pred_csv ev))
                   \<and> decode L (answers_cell (pred_csv ev) i) = Inl DecodeError))))
   \<and> ((calculate_metrics_by_id L ev = Inl DecodeError)
        = (''answear_bbox'' \<in> set (columns (true_csv ev))
           \<and> (\<exists>k < length (rows (true_csv ev)).
                 (\<forall>j < k. \<exists>m. metrics_of_row L ev j = Inr m)
                 \<and> metrics_of_row L ev k = Inl DecodeError)))"
proof -
  have a: "(decode L c = Inl DecodeError) = (\<forall>s. c = Text s \<longrightarrow> literal_eval L s = None)"
    by (cases c) (auto simp: decode_def split: option.splits)
  have "(metrics_loop L ev [0..<length (rows (true_csv ev))] = Inl DecodeError)
          = (\<exists>k < length (rows (true_csv ev)).
                 (\<forall>j < k. \<exists>m. metrics_of_row L ev j = Inr m)
                 \<and> metrics_of_row L ev k = Inl DecodeError)"
    unfolding metrics_loop_Inl by auto
  then have c: "(calculate_metrics_by_id L ev = Inl DecodeError)
        = (''answear_bbox'' \<in> set (columns (true_csv ev))
           \<and> (\<exists>k < length (rows (true_csv ev)).
                 (\<forall>j < k. \<exists>m. metrics_of_row L ev j = Inr m)
                 \<and> metrics_of_row L ev k = Inl DecodeError))"
    unfolding by_id_DecodeError by simp
  show ?thesis using a c metrics_of_row_DecodeError [of L ev i] by blast
qed

theorem decode_error_aborts_witness:
  "decode plain_libs (Text ''oops'') = Inl DecodeError
   \<and> metrics_of_row plain_libs ev_bad_answers 1 = Inl DecodeError
   \<and> calculate_metrics_by_id plain_libs ev_bad_answers = Inl DecodeError"
proof -
  note h = decode_error_aborts [of plain_libs _ ev_bad_answers 1]
  have lit: "literal_eval plain_libs ''oops'' = None"
    by (simp add: plain_eval)
  have 1: "decode plain_libs (Text ''oops'') = Inl DecodeError"
    using h [of "Text ''oops''"] lit by simp
  have cell: "answers_cell (true_csv ev_bad_answers) 1 = Text ''oops''"
    by (simp add: ev_bad_answers_def answers_cell_def cell_at_def)
  have 2: "metrics_of_row plain_libs ev_bad_answers 1 = Inl DecodeError"
    using h [of NaN] 1 cell by (simp add: ev_bad_answers_def)
  have 0: "\<exists>m. metrics_of_row plain_libs ev_bad_answers 0 = Inr m"
    by (simp add: ev_bad_answers_def run_eval plain_eval)
  have "\<exists>k < length (rows (true_csv ev_bad_answers)).
                 (\<forall>j < k. \<exists>m. metrics_of_row plain_libs ev_bad_answers j = Inr m)
                 \<and> metrics_of_row plain_libs ev_bad_answers k = Inl DecodeError"
    using 0 2 by (intro exI [of _ 1]) (simp add: ev_bad_answers_def)
  then have 3: "calculate_metrics_by_id plain_libs ev_bad_answers = Inl DecodeError"
    using h [of NaN] by (simp add: ev_bad_answers_def)
  show ?thesis using 1 2 3 by simp
qed

text \<open>
  C8 as stated fails: the text \<^verbatim>\<open>5\<close> is not a serialized sequence of strings, and
  decoding it raises nothing; \<^verbatim>\<open>ast.literal_eval\<close> accepts every Python literal.
\<close>

theorem decode_accepts_non_sequence:
  "decode plain_libs (Text ''5'') = Inr (PInt 5) \<and> \<not> string_sequence (PInt 5)"
  by (simp add: decode_def plain_eval)



text \<open>
  The table \<^verbatim>\<open>calculate_metrics_by_id\<close> returns holds numbers under the three metric
  labels, provided the reference table has no column of that label: it is a table the two
  grouping functions are stated for.
\<close>

lemma length_drop_cells:
  "length r = length cols \<Longrightarrow>
     length (drop_cells cols name r) = length (filter (\<lambda>c. c \<noteq> name) cols)"
  unfolding drop_cells_def by (induction cols r rule: list_induct2') auto

lemma cell_at_append:
  assumes "length r = length cs" and "name \<notin> set cs"
  shows "cell_at (cs @ ds) (r @ es) name = cell_at ds es name"
proof -
  have none: "map_of (zip cs r) name = None"
    using assms(2) by (auto simp: map_of_eq_None_iff dest: set_zip_leftD)
  show ?thesis
    using assms(1) by (simp add: cell_at_def map_add_def none)
qed

lemma metric_cells_numeric:
  assumes "name \<in> {''wer_error'', ''cer_error'', ''bleu_score''}"
  shows "is_num (cell_at [''pred_answers'', ''wer_error'', ''cer_error'', ''bleu_score'']
                   (metric_cells pa m) name)"
  using assms by (auto simp: cell_at_def metric_cells_def)

lemma per_row_table_numeric:
  assumes "calculate_metrics_by_id L ev = Inr out"
    and "list_all (\<lambda>r. length r = length (columns (true_csv ev))) (rows (true_csv ev))"
    and "name \<in> {''wer_error'', ''cer_error'', ''bleu_score''}"
    and "name \<notin> set (columns (true_csv ev))"
  shows "numeric_column out name"
proof -
  let ?cols = "columns (true_csv ev)"
  let ?kept = "filter (\<lambda>c. c \<noteq> ''answear_bbox'') ?cols"
  let ?names = "[''pred_answers'', ''wer_error'', ''cer_error'', ''bleu_score'']"
  from assms(1) obtain ms where
    out: "out = concat_metrics
                   \<lparr>columns = ?kept,
                    rows = map (drop_cells ?cols ''answear_bbox'') (rows (true_csv ev))\<rparr>
                   (map (\<lambda>r. cell_at (columns (pred_csv ev)) r ''answers'') (rows (pred_csv ev)))
                   ms"
    unfolding by_id_Inr by blast
  have cols: "columns out = ?kept @ ?names"
    by (simp add: out concat_metrics_def)
  have "name \<in> set (columns out)"
    using assms(3) unfolding cols by auto
  moreover have "is_num (cell_at (columns out) r name)" if "r \<in> set (rows out)" for r
  proof -
    from that obtain r0 pa m where r: "r = drop_cells ?cols ''answear_bbox'' r0 @ metric_cells pa m"
      and r0: "r0 \<in> set (rows (true_csv ev))"
      unfolding out concat_metrics_def by (auto dest!: set_zip_leftD)
    from r0 assms(2) have "length r0 = length ?cols"
      by (simp add: list_all_iff)
    then have len: "length (drop_cells ?cols ''answear_bbox'' r0) = length ?kept"
      by (rule length_drop_cells)
    have "name \<notin> set ?kept" using assms(4) by simp
    with len have "cell_at (columns out) r name = cell_at ?names (metric_cells pa m) name"
      unfolding cols r by (rule cell_at_append)
    with assms(3) show ?thesis by (simp only: metric_cells_numeric)
  qed
  ultimately show ?thesis
    by (simp add: numeric_column_def cells_of_def list_all_iff)
qed

section \<open>The corpus metrics of a single row\<close>

text \<open>
  C4, as the code has it. For a validated pair of one row whose two answers cells decode
  to lists, \<^verbatim>\<open>calculate_metrics_general\<close> has the outcome of the per-row computation
  on that row; whenever \<^verbatim>\<open>calculate_metrics_by_id\<close> returns its table, the general
  metrics are returned too and are the three values in the table's only row.
\<close>

theorem general_equals_single_row:
  assumes "validate_data ev = Inr ()"
    and "length (rows (true_csv ev)) = 1"
    and "decode L (answers_cell (true_csv ev) 0) = Inr (PList ts)"
    and "decode L (answers_cell (pred_csv ev) 0) = Inr (PList ps)"
  shows "calculate_metrics_general L ev = metrics_of_row L ev 0
       \<and> (\<forall>out. calculate_metrics_by_id L ev = Inr out \<longrightarrow>
            (\<exists>m. calculate_metrics_general L ev = Inr m
               \<and> rows out = [drop_cells (columns (true_csv ev)) ''answear_bbox'' (rows (true_csv ev) ! 0)
                              @ [answers_cell (pred_csv ev) 0,
                                 Num (wer_error m), Num (cer_error m), Num (bleu_score m)]]))"
proof -
  from assms(1,2) have len: "length (rows (pred_csv ev)) = 1"
    by (auto simp: validate_data_def split: if_splits)
  have ct: "''answers'' \<in> set (columns (true_csv ev))"
    using assms(3) by (rule decode_Inr_in_columns)
  have cp: "''answers'' \<in> set (columns (pred_csv ev))"
    using assms(4) by (rule decode_Inr_in_columns)
  have vt: "value_at (true_csv ev) ''answers'' 0 = Inr (answers_cell (true_csv ev) 0)"
    using ct assms(2) by (simp add: value_at_Inr answers_cell_def)
  have vp: "value_at (pred_csv ev) ''answers'' 0 = Inr (answers_cell (pred_csv ev) 0)"
    using cp len by (simp add: value_at_Inr answers_cell_def)
  have row: "metrics_of_row L ev 0 = score L (PList ts) (PList ps)"
    by (simp add: metrics_of_row_def lengths_differ_def vt vp assms(3,4))
  have "flatten_loop L ev [0..<length (rows (true_csv ev))] [] [] = Inr (ts, ps)"
    by (simp add: assms(2) vt vp assms(3,4))
  then have gen: "calculate_metrics_general L ev = score L (PList ts) (PList ps)"
    by (simp add: calculate_metrics_general_def)
  have "\<exists>m. calculate_metrics_general L ev = Inr m
               \<and> rows out = [drop_cells (columns (true_csv ev)) ''answear_bbox'' (rows (true_csv ev) ! 0)
                              @ [answers_cell (pred_csv ev) 0,
                                 Num (wer_error m), Num (cer_error m), Num (bleu_score m)]]"
    if out: "calculate_metrics_by_id L ev = Inr out" for out
  proof -
    from by_id_rows(3) [OF out, of 0] assms(2) obtain m where
      m: "metrics_of_row L ev 0 = Inr m"
        "rows out ! 0 = drop_cells (columns (true_csv ev)) ''answear_bbox'' (rows (true_csv ev) ! 0)
                                @ metric_cells (answers_cell (pred_csv ev) 0) m"
      by auto
    have "length (rows out) = 1" using by_id_rows(2) [OF out] assms(2) by simp
    then have "rows out = [rows out ! 0]"
      by (cases "rows out") simp_all
    with m gen row show ?thesis by (simp add: metric_cells_def)
  qed
  with gen row show ?thesis by simp
qed

theorem general_equals_single_row_witness:
  "calculate_metrics_general plain_libs ev_one_row
     = Inr \<lparr>wer_error = 0, cer_error = 0, bleu_score = 100\<rparr>
   \<and> calculate_metrics_by_id plain_libs ev_one_row
     = Inr \<lparr>columns = [''answers'', ''pred_answers'', ''wer_error'', ''cer_error'', ''bleu_score''],
            rows = [[Text ''['cat', 'dog']'', Text ''['cat', 'dog']'', Num 0, Num 0, Num 100]]\<rparr>"
proof -
  have 1: "validate_data ev_one_row = Inr ()"
    by (simp add: ev_one_row_def validate_data_def)
  have 2: "length (rows (true_csv ev_one_row)) = 1"
    by (simp add: ev_one_row_def)
  have 3: "decode plain_libs (answers_cell (true_csv ev_one_row) 0)
             = Inr (PList [PStr ''cat'', PStr ''dog''])"
    by (simp add: ev_one_row_def run_eval plain_eval)
  have 4: "decode plain_libs (answers_cell (pred_csv ev_one_row) 0)
             = Inr (PList [PStr ''cat'', PStr ''dog''])"
    by (simp add: ev_one_row_def run_eval plain_eval)
  have row: "metrics_of_row plain_libs ev_one_row 0
               = Inr \<lparr>wer_error = 0, cer_error = 0, bleu_score = 100\<rparr>"
    by (simp add: ev_one_row_def run_eval plain_eval)
  have tbl: "calculate_metrics_by_id plain_libs ev_one_row
     = Inr \<lparr>columns = [''answers'', ''pred_answers'', ''wer_error'', ''cer_error'', ''bleu_score''],
            rows = [[Text ''['cat', 'dog']'', Text ''['cat', 'dog']'', Num 0, Num 0, Num 100]]\<rparr>"
    by (simp add: ev_one_row_def run_eval plain_eval upt_rec)
  from general_equals_single_row [OF 1 2 3 4] row tbl show ?thesis by simp
qed

text \<open>
  C4 as stated fails: on a validated pair of one row whose answers are the texts
  \<^verbatim>\<open>'abc'\<close> and \<^verbatim>\<open>'abd'\<close>, the per-row word error rate is 1 (one sentence of one
  word, which differs), and the general one is 1/3, because \<^verbatim>\<open>list.extend\<close> breaks a
  text into its characters and jiwer then sees three sentences, one of which differs.
\<close>

theorem general_differs_on_text_answers:
  "validate_data ev_text_answers = Inr ()
   \<and> length (rows (true_csv ev_text_answers)) = 1
   \<and> calculate_metrics_by_id plain_libs ev_text_answers
     = Inr \<lparr>columns = [''answers'', ''pred_answers'', ''wer_error'', ''cer_error'', ''bleu_score''],
            rows = [[Text (quoted ''abc''), Text (quoted ''abd''), Num 1, Num (1 / 3), Num 0]]\<rparr>
   \<and> calculate_metrics_general plain_libs ev_text_answers
     = Inr \<lparr>wer_error = 1 / 3, cer_error = 1 / 3, bleu_score = 0\<rparr>"
  by (simp add: ev_text_answers_def run_eval plain_eval calculate_metrics_general_def upt_rec)

section \<open>Means per document class\<close>

lemma value_counts_index_props:
  "distinct (value_counts_index L cs)"
  "set (value_counts_index L cs) = set cs - {NaN}"
  "sorted_wrt (\<lambda>a b. count_list cs b \<le> count_list cs a
                  \<and> (count_list cs a = count_list cs b \<longrightarrow> tie_rank L cs a \<le> tie_rank L cs b))
     (value_counts_index L cs)"
proof -
  show "distinct (value_counts_index L cs)"
    by (simp add: value_counts_index_def)
  show "set (value_counts_index L cs) = set cs - {NaN}"
    by (auto simp: value_counts_index_def)
  have "sorted (map (\<lambda>k. (- int (count_list cs k), tie_rank L cs k)) (value_counts_index L cs))"
    unfolding value_counts_index_def by (rule sorted_sort_key)
  then have "sorted_wrt (\<lambda>a b. (- int (count_list cs a), tie_rank L cs a)
                             \<le> (- int (count_list cs b), tie_rank L cs b))
               (value_counts_index L cs)"
    by (simp add: sorted_map)
  then show "sorted_wrt (\<lambda>a b. count_list cs b \<le> count_list cs a
                  \<and> (count_list cs a = count_list cs b \<longrightarrow> tie_rank L cs a \<le> tie_rank L cs b))
     (value_counts_index L cs)"
    by (rule sorted_wrt_mono_rel [rotated]) (auto simp: less_eq_prod_def)
qed

lemma column_Inr: "name \<in> set (columns df) \<Longrightarrow> column df name = Inr (cells_of df name)"
  by (simp add: column_def cells_of_def)


lemma filter_zip_key_rows:
  "map snd (filter (\<lambda>kr. fst kr = k) (zip (map f rs) rs)) = filter (\<lambda>r. f r = k) rs"
  by (induction rs) auto

lemma numbers_of_nums: "list_all is_num cs \<Longrightarrow> numbers cs = map number_of cs"
proof (induction cs)
  case Nil
  then show ?case by simp
next
  case (Cons c cs)
  then show ?case by (cases c) simp_all
qed

lemma no_text_of_nums: "list_all is_num cs \<Longrightarrow> \<not> list_ex is_text cs"
proof (induction cs)
  case Nil
  then show ?case by simp
next
  case (Cons c cs)
  then show ?case by (cases c) simp_all
qed

lemma mean_cells_nums:
  assumes "list_all is_num cs" and "cs \<noteq> []"
  shows "mean_cells cs = Inr (Num (mean (map number_of cs)))"
  using assms by (simp add: mean_cells_def no_text_of_nums numbers_of_nums)

lemma nums_selected:
  "list_all is_num (map g rs) \<Longrightarrow> list_all is_num (map g (filter P rs))"
  by (induction rs) auto

lemma group_mean_class:
  assumes "''doc_class'' \<in> set (columns df)" and "numeric_column df metric"
    and "k \<in> set (cells_of df ''doc_class'')" and "k \<noteq> NaN"
  shows "group_mean df ''doc_class'' k metric = Inr (Num (class_mean df k metric))"
proof -
  let ?sel = "filter (\<lambda>r. cell_at (columns df) r ''doc_class'' = k) (rows df)"
  have sel: "select_rows df ''doc_class'' k = Inr \<lparr>columns = columns df, rows = ?sel\<rparr>"
    using assms(1,4) by (simp add: select_rows_def column_Inr cells_of_def filter_zip_key_rows)
  have col: "column \<lparr>columns = columns df, rows = ?sel\<rparr> metric
               = Inr (map (\<lambda>r. cell_at (columns df) r metric) ?sel)"
    using assms(2) by (simp add: column_def numeric_column_def)
  have nums: "list_all is_num (map (\<lambda>r. cell_at (columns df) r metric) ?sel)"
    using assms(2) unfolding numeric_column_def cells_of_def by (auto intro: nums_selected)
  have "?sel \<noteq> []"
    using assms(3) by (auto simp: cells_of_def filter_empty_conv)
  then have "mean_cells (map (\<lambda>r. cell_at (columns df) r metric) ?sel)
               = Inr (Num (class_mean df k metric))"
    using nums by (simp add: mean_cells_nums class_mean_def comp_def)
  with sel col show ?thesis by (simp add: group_mean_def)
qed

lemma doc_type_loop_rows:
  assumes "''doc_class'' \<in> set (columns df)"
    and "numeric_column df ''wer_error''" and "numeric_column df ''cer_error''"
    and "numeric_column df ''bleu_score''"
    and "set ks \<subseteq> set (cells_of df ''doc_class'') - {NaN}"
  shows "doc_type_loop df ks
           = Inr (map (\<lambda>k. [k, Num (class_mean df k ''wer_error''),
                              Num (class_mean df k ''cer_error''),
                              Num (class_mean df k ''bleu_score'')]) ks)"
  using assms(5)
proof (induction ks)
  case Nil
  then show ?case by simp
next
  case (Cons k ks)
  then have k: "k \<in> set (cells_of df ''doc_class'')" "k \<noteq> NaN" by auto
  from Cons have "doc_type_loop df ks
           = Inr (map (\<lambda>k. [k, Num (class_mean df k ''wer_error''),
                              Num (class_mean df k ''cer_error''),
                              Num (class_mean df k ''bleu_score'')]) ks)" by simp
  then show ?case
    by (simp add: group_mean_class [OF assms(1) _ k] assms(2,3,4))
qed

lemma by_doc_type_run:
  "calculate_metrics_by_doc_type plain_libs df_metrics
     = Inr \<lparr>columns = [''doc_class'', ''wer_error'', ''cer_error'', ''bleu_score''],
            rows = [[Text ''invoice'', Num (1 / 3), Num (1 / 3), Num 70],
                    [Text ''contract'', Num (1 / 2), Num (1 / 4), Num 60],
                    [Text ''receipt'', Num 1, Num (1 / 2), Num 40]]\<rparr>"
  by (simp add: df_metrics_def plain_libs_def group_eval)

text \<open>
  C5, as the code has it. On a table that has the column \<^verbatim>\<open>doc_class\<close> and numbers
  in the columns \<^verbatim>\<open>wer_error\<close>, \<^verbatim>\<open>cer_error\<close> and \<^verbatim>\<open>bleu_score\<close>,
  \<^verbatim>\<open>calculate_metrics_by_doc_type\<close> returns one row per distinct document class (a
  missing class label is no class), holding the class and the arithmetic means of the
  three metrics over all rows of the class; a class never comes after a less frequent
  one, and equally frequent classes come in the order the library ranks them.
\<close>

theorem doc_type_means:
  assumes "''doc_class'' \<in> set (columns df)"
    and "numeric_column df ''wer_error''" and "numeric_column df ''cer_error''"
    and "numeric_column df ''bleu_score''"
  shows "\<exists>ks. calculate_metrics_by_doc_type L df
                = Inr \<lparr>columns = [''doc_class'', ''wer_error'', ''cer_error'', ''bleu_score''],
                       rows = map (\<lambda>k. [k, Num (class_mean df k ''wer_error''),
                                          Num (class_mean df k ''cer_error''),
                                          Num (class_mean df k ''bleu_score'')]) ks\<rparr>
           \<and> distinct ks
           \<and> set ks = set (cells_of df ''doc_class'') - {NaN}
           \<and> sorted_wrt (\<lambda>a b. count_list (cells_of df ''doc_class'') b
                                 \<le> count_list (cells_of df ''doc_class'') a
                               \<and> (count_list (cells_of df ''doc_class'') a
                                    = count_list (cells_of df ''doc_class'') b
                                  \<longrightarrow> tie_rank L (cells_of df ''doc_class'') a
                                       \<le> tie_rank L (cells_of df ''doc_class'') b)) ks"
proof -
  let ?ks = "value_counts_index L (cells_of df ''doc_class'')"
  have "set ?ks \<subseteq> set (cells_of df ''doc_class'') - {NaN}"
    by (simp add: value_counts_index_props(2))
  then have "calculate_metrics_by_doc_type L df
                = Inr \<lparr>columns = [''doc_class'', ''wer_error'', ''cer_error'', ''bleu_score''],
                       rows = map (\<lambda>k. [k, Num (class_mean df k ''wer_error''),
                                          Num (class_mean df k ''cer_error''),
                                          Num (class_mean df k ''bleu_score'')]) ?ks\<rparr>"
    using assms by (simp add: calculate_metrics_by_doc_type_def column_Inr doc_type_loop_rows)
  then show ?thesis
    using value_counts_index_props [where L = L and cs = "cells_of df ''doc_class''"] by blast
qed

theorem doc_type_means_witness:
  "(\<exists>ks. calculate_metrics_by_doc_type plain_libs df_metrics
                = Inr \<lparr>columns = [''doc_class'', ''wer_error'', ''cer_error'', ''bleu_score''],
                       rows = map (\<lambda>k. [k, Num (class_mean df_metrics k ''wer_error''),
                                          Num (class_mean df_metrics k ''cer_error''),
                                          Num (class_mean df_metrics k ''bleu_score'')]) ks\<rparr>
           \<and> distinct ks
           \<and> set ks = {Text ''receipt'', Text ''invoice'', Text ''contract''})
   \<and> calculate_metrics_by_doc_type plain_libs df_metrics
     = Inr \<lparr>columns = [''doc_class'', ''wer_error'', ''cer_error'', ''bleu_score''],
            rows = [[Text ''invoice'', Num (1 / 3), Num (1 / 3), Num 70],
                    [Text ''contract'', Num (1 / 2), Num (1 / 4), Num 60],
                    [Text ''receipt'', Num 1, Num (1 / 2), Num 40]]\<rparr>"
proof -
  have 1: "''doc_class'' \<in> set (columns df_metrics)" by (simp add: df_metrics_def)
  have 2: "numeric_column df_metrics ''wer_error''"
    by (simp add: df_metrics_def numeric_column_def cells_of_def cell_at_def)
  have 3: "numeric_column df_metrics ''cer_error''"
    by (simp add: df_metrics_def numeric_column_def cells_of_def cell_at_def)
  have 4: "numeric_column df_metrics ''bleu_score''"
    by (simp add: df_metrics_def numeric_column_def cells_of_def cell_at_def)
  have 6: "set (cells_of df_metrics ''doc_class'') - {NaN}
             = {Text ''receipt'', Text ''invoice'', Text ''contract''}"
    by (auto simp: df_metrics_def cells_of_def cell_at_def)
  from doc_type_means [OF 1 2 3 4] obtain ks where
    "calculate_metrics_by_doc_type plain_libs df_metrics
                = Inr \<lparr>columns = [''doc_class'', ''wer_error'', ''cer_error'', ''bleu_score''],
                       rows = map (\<lambda>k. [k, Num (class_mean df_metrics k ''wer_error''),
                                          Num (class_mean df_metrics k ''cer_error''),
                                          Num (class_mean df_metrics k ''bleu_score'')]) ks\<rparr>"
    "distinct ks" "set ks = set (cells_of df_metrics ''doc_class'') - {NaN}"
    by blast
  then have "\<exists>ks. calculate_metrics_by_doc_type plain_libs df_metrics
                = Inr \<lparr>columns = [''doc_class'', ''wer_error'', ''cer_error'', ''bleu_score''],
                       rows = map (\<lambda>k. [k, Num (class_mean df_metrics k ''wer_error''),
                                          Num (class_mean df_metrics k ''cer_error''),
                                          Num (class_mean df_metrics k ''bleu_score'')]) ks\<rparr>
           \<and> distinct ks
           \<and> set ks = {Text ''receipt'', Text ''invoice'', Text ''contract''}"
    unfolding 6 by blast
  then show ?thesis using by_doc_type_run by (rule conjI)
qed

text \<open>
  C5 as stated fails in its last clause. The classes \<^verbatim>\<open>receipt\<close> and \<^verbatim>\<open>contract\<close>
  occur once each and \<^verbatim>\<open>receipt\<close> occurs first, yet the row of \<^verbatim>\<open>contract\<close> comes
  before the row of \<^verbatim>\<open>receipt\<close>: \<^verbatim>\<open>value_counts\<close> keeps no order among equal
  counts, and the program takes the order it gives.
\<close>

theorem doc_type_ties_not_first_seen:
  "calculate_metrics_by_doc_type plain_libs df_metrics
     = Inr \<lparr>columns = [''doc_class'', ''wer_error'', ''cer_error'', ''bleu_score''],
            rows = [[Text ''invoice'', Num (1 / 3), Num (1 / 3), Num 70],
                    [Text ''contract'', Num (1 / 2), Num (1 / 4), Num 60],
                    [Text ''receipt'', Num 1, Num (1 / 2), Num 40]]\<rparr>
   \<and> count_list (cells_of df_metrics ''doc_class'') (Text ''contract'')
       = count_list (cells_of df_metrics ''doc_class'') (Text ''receipt'')
   \<and> first_seen (cells_of df_metrics ''doc_class'') (Text ''receipt'')
       < first_seen (cells_of df_metrics ''doc_class'') (Text ''contract'')"
  by (simp add: df_metrics_def plain_libs_def group_eval first_seen_def)

section \<open>Means per document class and question type\<close>












end
